theory Spec2Isabelle
  imports Main "HOL-Library.Word"
begin

section \<open>JavaScript values\<close>

text \<open>
  The arguments of the builder methods are untyped JavaScript values, and the methods
  decide what to do by looking at their runtime shape (\<^verbatim>\<open>Array.isArray\<close>,
  \<^verbatim>\<open>typeof x === 'number'\<close>, \<^verbatim>\<open>Buffer.isBuffer\<close>) and at their truthiness
  (\<^verbatim>\<open>version || -1\<close>, \<^verbatim>\<open>if (error)\<close>). A number is an integer-valued double or
  \<^verbatim>\<open>NaN\<close>; fractional and infinite numbers pass every test of this file exactly as a
  non-zero integer does and are left out. Objects and functions are opaque references.
\<close>

datatype jsval =
    JUndefined
  | JNull
  | JBoolean bool
  | JNumber int
  | JNaN
  | JString string
  | JBuffer "8 word list"
  | JArray "jsval list"
  | JObject nat
  | JFunction nat

fun isArray :: "jsval \<Rightarrow> bool" where
  "isArray (JArray xs) = True"
| "isArray v = False"

fun isBuffer :: "jsval \<Rightarrow> bool" where
  "isBuffer (JBuffer bs) = True"
| "isBuffer v = False"

text \<open>\<^verbatim>\<open>typeof v === 'number'\<close> and \<^verbatim>\<open>typeof v === 'function'\<close>.\<close>

fun is_number :: "jsval \<Rightarrow> bool" where
  "is_number (JNumber n) = True"
| "is_number JNaN = True"
| "is_number v = False"

fun is_function :: "jsval \<Rightarrow> bool" where
  "is_function (JFunction f) = True"
| "is_function v = False"

text \<open>
  Truthiness: \<^verbatim>\<open>undefined\<close>, \<^verbatim>\<open>null\<close>, \<^verbatim>\<open>false\<close>, \<^verbatim>\<open>0\<close>, \<^verbatim>\<open>NaN\<close> and the empty
  string are falsy, every other value is truthy. \<^verbatim>\<open>a || b\<close> is \<^verbatim>\<open>a\<close> when \<^verbatim>\<open>a\<close> is
  truthy and \<^verbatim>\<open>b\<close> otherwise.
\<close>

fun truthy :: "jsval \<Rightarrow> bool" where
  "truthy JUndefined = False"
| "truthy JNull = False"
| "truthy (JBoolean b) = b"
| "truthy (JNumber n) = (n \<noteq> 0)"
| "truthy JNaN = False"
| "truthy (JString s) = (s \<noteq> [])"
| "truthy v = True"

definition js_or :: "jsval \<Rightarrow> jsval \<Rightarrow> jsval" where
  "js_or a b = (if truthy a then a else b)"

section \<open>Data model\<close>

text \<open>
  An operation is the object literal a builder method pushes. Its \<^verbatim>\<open>type\<close> field is one
  of four op-codes of the wire protocol (\<^verbatim>\<open>jute.OP_CODES.CREATE\<close>, \<^verbatim>\<open>CHECK\<close>,
  \<^verbatim>\<open>SET_DATA\<close>, \<^verbatim>\<open>DELETE\<close>) and fixes which other fields the object has, so the
  op-code is the constructor. The fields come in the order of the literal:
  \<^verbatim>\<open>{type: CREATE, path, data, acls, mode}\<close>, \<^verbatim>\<open>{type: CHECK, path, version}\<close>,
  \<^verbatim>\<open>{type: SET_DATA, path, data, version}\<close>, \<^verbatim>\<open>{type: DELETE, path, version}\<close>.
\<close>

datatype operation =
    Create jsval jsval "jsval list" jsval
  | Check jsval jsval
  | SetData jsval jsval jsval
  | Delete jsval jsval

type_synonym ref = nat

record transaction =
  ops :: "operation list"
  connectionManager :: ref

text \<open>
  Transactions are mutable objects: \<^verbatim>\<open>this.ops.push\<close> changes the receiver in place and
  every builder method returns \<^verbatim>\<open>this\<close>. The store maps a reference to the state of the
  instance it denotes.
\<close>

type_synonym store = "ref \<Rightarrow> transaction"

datatype error =
    InvalidPath
  | AssertionError string
  | TypeError

text \<open>
  A call either throws or returns; in both cases it leaves a store behind. A throw does
  not undo what the call did before it.
\<close>

type_synonym 'a outcome = "(error + 'a) \<times> store"

text \<open>One entry of \<^verbatim>\<open>response.payload.results\<close>, the request that is queued, the response.\<close>

record result =
  rtype :: int
  err :: int
  body :: jsval

record request =
  header_type :: int
  payload :: "operation list"

record response =
  results :: "result list"

text \<open>
  The collaborators that \<^verbatim>\<open>Transaction.js\<close> imports. \<^verbatim>\<open>Path.validate\<close> either returns
  or throws: \<open>Path_validate\<close> holds of the values it accepts. \<^verbatim>\<open>connectionManager.queue\<close>
  is given the request and a completion function; \<open>queue\<close> lists the argument pairs
  \<^verbatim>\<open>(error, response)\<close> with which that connection manager calls the completion
  function, \<open>None\<close> standing for a response that is \<^verbatim>\<open>undefined\<close>.
\<close>

record env =
  Path_validate :: "jsval \<Rightarrow> bool"
  OPEN_ACL_UNSAFE :: "jsval list"
  PERSISTENT :: jsval
  OP_CODES_MULTI :: int
  OP_CODES_ERROR :: int
  Exception_OK :: int
  Exception_create :: "int \<Rightarrow> jsval"
  queue :: "ref \<Rightarrow> request \<Rightarrow> (jsval \<times> response option) list"

section \<open>The builder methods\<close>

text \<open>\<^verbatim>\<open>this.ops.push(op); return this;\<close>\<close>

definition push :: "store \<Rightarrow> ref \<Rightarrow> operation \<Rightarrow> ref outcome" where
  "push h this op = (Inr this, h(this := (h this)\<lparr>ops := ops (h this) @ [op]\<rparr>))"

text \<open>
  The body of the \<^verbatim>\<open>forEach\<close> in \<^verbatim>\<open>create\<close>, on the triple of the variables
  \<^verbatim>\<open>(data, acls, mode)\<close>.
\<close>

fun classify :: "jsval \<times> jsval \<times> jsval \<Rightarrow> jsval \<Rightarrow> jsval \<times> jsval \<times> jsval" where
  "classify (data, acls, mode) arg =
     (if isArray arg then (data, arg, mode)
      else if is_number arg then (data, acls, arg)
      else if isBuffer arg then (arg, acls, mode)
      else (data, acls, mode))"

definition create :: "env \<Rightarrow> store \<Rightarrow> ref \<Rightarrow> jsval \<Rightarrow> jsval \<Rightarrow> jsval \<Rightarrow> jsval \<Rightarrow> ref outcome" where
  "create env h this path data0 acls0 mode0 =
     (let optionalArgs = [data0, acls0, mode0] in
      if \<not> Path_validate env path then (Inl InvalidPath, h)
      else
        (case foldl classify (JUndefined, JUndefined, JUndefined) optionalArgs of
          (data, acls1, mode1) \<Rightarrow>
            let acls = (case acls1 of JArray xs \<Rightarrow> xs | _ \<Rightarrow> OPEN_ACL_UNSAFE env);
                mode = (if is_number mode1 then mode1 else PERSISTENT env)
            in
              if \<not> (data = JNull \<or> data = JUndefined \<or> isBuffer data)
              then (Inl (AssertionError ''data must be a valid buffer, null or undefined.''), h)
              else if \<not> (length acls > 0)
              then (Inl (AssertionError ''acls must be a non-empty array.''), h)
              else push h this (Create path data acls mode)))"

definition check :: "env \<Rightarrow> store \<Rightarrow> ref \<Rightarrow> jsval \<Rightarrow> jsval \<Rightarrow> ref outcome" where
  "check env h this path version0 =
     (let version = js_or version0 (JNumber (- 1)) in
      if \<not> Path_validate env path then (Inl InvalidPath, h)
      else if \<not> is_number version
      then (Inl (AssertionError ''version must be a number.''), h)
      else push h this (Check path version))"

definition setData :: "env \<Rightarrow> store \<Rightarrow> ref \<Rightarrow> jsval \<Rightarrow> jsval \<Rightarrow> jsval \<Rightarrow> ref outcome" where
  "setData env h this path data version0 =
     (let version = js_or version0 (JNumber (- 1)) in
      if \<not> Path_validate env path then (Inl InvalidPath, h)
      else if \<not> (data = JNull \<or> data = JUndefined \<or> isBuffer data)
      then (Inl (AssertionError ''data must be a valid buffer, null or undefined.''), h)
      else if \<not> is_number version
      then (Inl (AssertionError ''version must be a number.''), h)
      else push h this (SetData path data version))"

definition remove :: "env \<Rightarrow> store \<Rightarrow> ref \<Rightarrow> jsval \<Rightarrow> jsval \<Rightarrow> ref outcome" where
  "remove env h this path version0 =
     (let version = js_or version0 (JNumber (- 1)) in
      if \<not> Path_validate env path then (Inl InvalidPath, h)
      else if \<not> is_number version
      then (Inl (AssertionError ''version must be a number.''), h)
      else push h this (Delete path version))"

section \<open>Commit\<close>

text \<open>
  The \<^verbatim>\<open>for\<close> loop of the completion function: it walks the results from index 0 and
  leaves at the first entry of error type whose code is not \<^verbatim>\<open>Exception.OK\<close>, with
  \<^verbatim>\<open>error\<close> overwritten by \<^verbatim>\<open>Exception.create(result.err)\<close>. The value returned is
  the value of \<^verbatim>\<open>error\<close> after the loop.
\<close>

fun scan :: "env \<Rightarrow> jsval \<Rightarrow> result list \<Rightarrow> jsval" where
  "scan env error [] = error"
| "scan env error (r # rs) =
     (if rtype r = OP_CODES_ERROR env \<and> err r \<noteq> Exception_OK env
      then Exception_create env (err r)
      else scan env error rs)"

text \<open>A call of the user's callback: \<^verbatim>\<open>callback(error)\<close> or \<^verbatim>\<open>callback(error, results)\<close>.\<close>

datatype callback_call =
    Call1 jsval
  | Call2 jsval "result list"

text \<open>
  The completion function handed to \<^verbatim>\<open>queue\<close>. Reading \<^verbatim>\<open>response.payload\<close> of an
  undefined response throws.
\<close>

definition on_response :: "env \<Rightarrow> jsval \<Rightarrow> response option \<Rightarrow> error + callback_call" where
  "on_response env error response =
     (if truthy error then Inr (Call1 error)
      else
        (case response of
          None \<Rightarrow> Inl TypeError
        | Some resp \<Rightarrow> Inr (Call2 (scan env error (results resp)) (results resp))))"

text \<open>
  \<^verbatim>\<open>commit\<close> returns nothing; what it does is queue one request and, through the
  completion function, call the callback. The model returns both: the request, and for
  each time the connection manager completes the request what the completion function
  did.
\<close>

definition commit ::
  "env \<Rightarrow> store \<Rightarrow> ref \<Rightarrow> jsval \<Rightarrow> (request \<times> (error + callback_call) list) outcome" where
  "commit env h this callback =
     (if \<not> is_function callback
      then (Inl (AssertionError ''callback must be a function''), h)
      else
        let request = \<lparr>header_type = OP_CODES_MULTI env, payload = ops (h this)\<rparr>
        in (Inr (request,
                 map (\<lambda>(error, response). on_response env error response)
                   (queue env (connectionManager (h this)) request)),
            h))"

section \<open>Vocabulary of the statements\<close>

text \<open>
  The four builder calls as data, so that a statement can speak of any of them, and a
  chain \<^verbatim>\<open>t.a(...).b(...).c(...)\<close>: each call is made on the reference the call before
  it returned, and the chain stops at the first call that throws.
\<close>

datatype append_call =
    CallCreate jsval jsval jsval jsval
  | CallCheck jsval jsval
  | CallSetData jsval jsval jsval
  | CallRemove jsval jsval

fun invoke :: "env \<Rightarrow> store \<Rightarrow> ref \<Rightarrow> append_call \<Rightarrow> ref outcome" where
  "invoke env h this (CallCreate path data acls mode) = create env h this path data acls mode"
| "invoke env h this (CallCheck path version) = check env h this path version"
| "invoke env h this (CallSetData path data version) = setData env h this path data version"
| "invoke env h this (CallRemove path version) = remove env h this path version"

fun invoke_all :: "env \<Rightarrow> store \<Rightarrow> ref \<Rightarrow> append_call list \<Rightarrow> ref outcome" where
  "invoke_all env h this [] = (Inr this, h)"
| "invoke_all env h this (c # cs) =
     (case invoke env h this c of
        (Inl e, h') \<Rightarrow> (Inl e, h')
      | (Inr r, h') \<Rightarrow> invoke_all env h' r cs)"

text \<open>
  The resolution rule of \<^verbatim>\<open>create\<close> in the words of the specification, to be compared
  with the code: among the optional arguments the last one of a shape is the value of
  that shape, and a shape that no argument has takes its default.
\<close>

definition last_of_shape :: "(jsval \<Rightarrow> bool) \<Rightarrow> jsval list \<Rightarrow> jsval option" where
  "last_of_shape P args = (if filter P args = [] then None else Some (last (filter P args)))"

definition spec_data :: "jsval list \<Rightarrow> jsval" where
  "spec_data args = (case last_of_shape isBuffer args of None \<Rightarrow> JUndefined | Some d \<Rightarrow> d)"

definition spec_acls :: "env \<Rightarrow> jsval list \<Rightarrow> jsval list" where
  "spec_acls env args =
     (case last_of_shape isArray args of Some (JArray xs) \<Rightarrow> xs | _ \<Rightarrow> OPEN_ACL_UNSAFE env)"

definition spec_mode :: "env \<Rightarrow> jsval list \<Rightarrow> jsval" where
  "spec_mode env args =
     (case last_of_shape is_number args of None \<Rightarrow> PERSISTENT env | Some m \<Rightarrow> m)"

text \<open>A result entry that marks a failure: of error type, with a code other than OK.\<close>

definition signals_failure :: "env \<Rightarrow> result \<Rightarrow> bool" where
  "signals_failure env r = (rtype r = OP_CODES_ERROR env \<and> err r \<noteq> Exception_OK env)"

section \<open>A concrete environment\<close>

text \<open>
  The constants are those of the ZooKeeper protocol (\<^verbatim>\<open>MULTI = 14\<close>, \<^verbatim>\<open>ERROR = -1\<close>,
  \<^verbatim>\<open>OK = 0\<close>, \<^verbatim>\<open>PERSISTENT = 0\<close>, one open ACL entry). The path validator accepts the
  strings that start with a slash, the exception factory makes a distinct object for
  each code, and \<open>demo_replying\<close> fixes what the connection manager answers.
\<close>

definition demo_env :: env where
  "demo_env =
     \<lparr>Path_validate = (\<lambda>p. case p of JString (c # cs) \<Rightarrow> c = CHR ''/'' | _ \<Rightarrow> False),
      OPEN_ACL_UNSAFE = [JObject 0],
      PERSISTENT = JNumber 0,
      OP_CODES_MULTI = 14,
      OP_CODES_ERROR = - 1,
      Exception_OK = 0,
      Exception_create = (\<lambda>code. JObject (nat (abs code))),
      queue = (\<lambda>cm request. [])\<rparr>"

definition demo_replying :: "(jsval \<times> response option) list \<Rightarrow> env" where
  "demo_replying replies = demo_env\<lparr>queue := (\<lambda>cm request. replies)\<rparr>"

text \<open>
  A connection manager that tells requests apart: it completes the request \<open>expected\<close>
  once, with no error and the results \<open>demo_success\<close>, and completes any other request
  with an error object.
\<close>

definition demo_answering :: "request \<Rightarrow> env" where
  "demo_answering expected =
     demo_env\<lparr>queue := (\<lambda>cm request.
       if cm = 7 \<and> request = expected
       then [(JNull, Some \<lparr>results =
               [\<lparr>rtype = 1, err = 0, body = JString ''/a''\<rparr>,
                \<lparr>rtype = 5, err = 0, body = JObject 1\<rparr>,
                \<lparr>rtype = 13, err = 0, body = JUndefined\<rparr>]\<rparr>)]
       else [(JObject 5, None)])\<rparr>"

definition h0 :: store where
  "h0 = (\<lambda>r. \<lparr>ops = [], connectionManager = 7\<rparr>)"

text \<open>
  Three results of a transaction that went through, and three of one whose second
  operation failed with code \<open>-101\<close>: the server marks every entry as an error, with OK
  before the failing operation and \<open>-2\<close> after it.
\<close>

definition demo_success :: "result list" where
  "demo_success =
     [\<lparr>rtype = 1, err = 0, body = JString ''/a''\<rparr>,
      \<lparr>rtype = 5, err = 0, body = JObject 1\<rparr>,
      \<lparr>rtype = 13, err = 0, body = JUndefined\<rparr>]"

definition demo_failure :: "result list" where
  "demo_failure =
     [\<lparr>rtype = - 1, err = 0, body = JUndefined\<rparr>,
      \<lparr>rtype = - 1, err = - 101, body = JUndefined\<rparr>,
      \<lparr>rtype = - 1, err = - 2, body = JUndefined\<rparr>]"

definition demo_calls :: "append_call list" where
  "demo_calls =
     [CallCreate (JString ''/a'') (JBuffer [120]) JUndefined JUndefined,
      CallSetData (JString ''/a'') (JBuffer [121]) (JNumber 1),
      CallCheck (JString ''/a'') (JNumber 1)]"

definition demo_ops :: "operation list" where
  "demo_ops =
     [Create (JString ''/a'') (JBuffer [120]) [JObject 0] (JNumber 0),
      SetData (JString ''/a'') (JBuffer [121]) (JNumber 1),
      Check (JString ''/a'') (JNumber 1)]"

section \<open>Facts about the concrete environment\<close>

lemma demo_env_simps [simp]:
  "Path_validate demo_env (JString (c # cs)) = (c = CHR ''/'')"
  "Path_validate demo_env (JString []) = False"
  "Path_validate demo_env (JNumber n) = False"
  "OPEN_ACL_UNSAFE demo_env = [JObject 0]"
  "PERSISTENT demo_env = JNumber 0"
  "OP_CODES_MULTI demo_env = 14"
  "OP_CODES_ERROR demo_env = - 1"
  "Exception_OK demo_env = 0"
  "Exception_create demo_env code = JObject (nat (abs code))"
  "queue demo_env cm request = []"
  by (simp_all add: demo_env_def)

lemma demo_replying_simps [simp]:
  "Path_validate (demo_replying replies) = Path_validate demo_env"
  "OPEN_ACL_UNSAFE (demo_replying replies) = [JObject 0]"
  "PERSISTENT (demo_replying replies) = JNumber 0"
  "OP_CODES_MULTI (demo_replying replies) = 14"
  "OP_CODES_ERROR (demo_replying replies) = - 1"
  "Exception_OK (demo_replying replies) = 0"
  "Exception_create (demo_replying replies) code = JObject (nat (abs code))"
  "queue (demo_replying replies) cm request = replies"
  by (simp_all add: demo_replying_def)

lemma demo_answering_simps [simp]:
  "Path_validate (demo_answering expected) = Path_validate demo_env"
  "OPEN_ACL_UNSAFE (demo_answering expected) = [JObject 0]"
  "PERSISTENT (demo_answering expected) = JNumber 0"
  "OP_CODES_MULTI (demo_answering expected) = 14"
  "OP_CODES_ERROR (demo_answering expected) = - 1"
  "Exception_OK (demo_answering expected) = 0"
  "Exception_create (demo_answering expected) code = JObject (nat (abs code))"
  "queue (demo_answering expected) cm request =
     (if cm = 7 \<and> request = expected then [(JNull, Some \<lparr>results = demo_success\<rparr>)]
      else [(JObject 5, None)])"
  by (simp_all add: demo_answering_def demo_success_def)

lemma h0_apply [simp]: "h0 r = \<lparr>ops = [], connectionManager = 7\<rparr>"
  by (simp add: h0_def)

section \<open>Argument resolution in create\<close>

lemma last_of_shape_Nil [simp]: "last_of_shape P [] = None"
  by (simp add: last_of_shape_def)

lemma last_of_shape_snoc [simp]:
  "last_of_shape P (xs @ [x]) = (if P x then Some x else last_of_shape P xs)"
  by (simp add: last_of_shape_def)

lemma last_of_shape_holds: "last_of_shape P args = Some d \<Longrightarrow> P d"
proof -
  assume "last_of_shape P args = Some d"
  then have "filter P args \<noteq> []" and "d = last (filter P args)"
    by (auto simp: last_of_shape_def split: if_splits)
  then have "d \<in> set (filter P args)"
    using last_in_set[of "filter P args"] by blast
  then show "P d"
    by simp
qed

text \<open>
  The \<^verbatim>\<open>forEach\<close> over any argument list: each variable ends as the last argument of
  its shape, or keeps its starting value.
\<close>

lemma foldl_classify:
  "foldl classify (d, a, m) args =
     (case last_of_shape isBuffer args of None \<Rightarrow> d | Some x \<Rightarrow> x,
      case last_of_shape isArray args of None \<Rightarrow> a | Some x \<Rightarrow> x,
      case last_of_shape is_number args of None \<Rightarrow> m | Some x \<Rightarrow> x)"
proof (induction args rule: rev_induct)
  case Nil
  show ?case by simp
next
  case (snoc x xs)
  show ?case by (cases x) (simp_all add: snoc)
qed

lemma spec_data_shape:
  "spec_data args = JNull \<or> spec_data args = JUndefined \<or> isBuffer (spec_data args)"
  by (auto simp: spec_data_def split: option.splits dest: last_of_shape_holds)

lemma create_unfold:
  "create env h this path a1 a2 a3 =
     (if \<not> Path_validate env path then (Inl InvalidPath, h)
      else if spec_acls env [a1, a2, a3] = []
      then (Inl (AssertionError ''acls must be a non-empty array.''), h)
      else push h this
             (Create path (spec_data [a1, a2, a3]) (spec_acls env [a1, a2, a3])
                (spec_mode env [a1, a2, a3])))"
proof -
  let ?args = "[a1, a2, a3]"
  have d: "(case last_of_shape isBuffer ?args of None \<Rightarrow> JUndefined | Some x \<Rightarrow> x) =
             spec_data ?args"
    by (simp add: spec_data_def)
  have a: "(case (case last_of_shape isArray ?args of None \<Rightarrow> JUndefined | Some x \<Rightarrow> x) of
              JArray xs \<Rightarrow> xs | _ \<Rightarrow> OPEN_ACL_UNSAFE env) = spec_acls env ?args"
    by (auto simp: spec_acls_def split: option.splits jsval.splits)
  have m: "(if is_number (case last_of_shape is_number ?args of None \<Rightarrow> JUndefined | Some x \<Rightarrow> x)
            then (case last_of_shape is_number ?args of None \<Rightarrow> JUndefined | Some x \<Rightarrow> x)
            else PERSISTENT env) = spec_mode env ?args"
    by (auto simp: spec_mode_def split: option.splits dest: last_of_shape_holds)
  show ?thesis
    unfolding create_def Let_def foldl_classify prod.case
    using spec_data_shape[of ?args]
    unfolding d a m
    by auto
qed

text \<open>
  Claim C4. For a valid path and any three values in the optional slots of \<^verbatim>\<open>create\<close>,
  in any order: the last array is the ACL list, the last number is the mode, the last
  buffer is the data; a shape that is not supplied takes its default (the open ACL set,
  persistent, undefined); and the call appends one Create operation with exactly these
  fields to the receiver. The one exception is the rejection of an empty ACL list.
\<close>

theorem create_resolves_by_shape:
  assumes "Path_validate env path"
  shows "create env h this path a1 a2 a3 =
           (if spec_acls env [a1, a2, a3] = []
            then (Inl (AssertionError ''acls must be a non-empty array.''), h)
            else (Inr this,
                  h(this := (h this)
                     \<lparr>ops := ops (h this) @
                        [Create path (spec_data [a1, a2, a3]) (spec_acls env [a1, a2, a3])
                           (spec_mode env [a1, a2, a3])]\<rparr>)))"
  using assms by (simp add: create_unfold push_def)

theorem create_resolves_by_shape_witness:
  "Path_validate demo_env (JString ''/a'') \<and>
   create demo_env h0 0 (JString ''/a'') (JNumber 1) (JBuffer [120]) (JArray [JObject 9]) =
     (Inr 0, h0(0 := \<lparr>ops = [Create (JString ''/a'') (JBuffer [120]) [JObject 9] (JNumber 1)],
                       connectionManager = 7\<rparr>)) \<and>
   create demo_env h0 0 (JString ''/a'') (JNumber 1) (JNumber 3) JUndefined =
     (Inr 0, h0(0 := \<lparr>ops = [Create (JString ''/a'') JUndefined [JObject 0] (JNumber 3)],
                       connectionManager = 7\<rparr>))"
  using create_resolves_by_shape[of demo_env "JString ''/a''" h0 0
          "JNumber 1" "JBuffer [120]" "JArray [JObject 9]"]
        create_resolves_by_shape[of demo_env "JString ''/a''" h0 0
          "JNumber 1" "JNumber 3" JUndefined]
  by (simp add: spec_acls_def spec_data_def spec_mode_def last_of_shape_def)

text \<open>
  Claim C7. When the ACL list that \<^verbatim>\<open>create\<close> resolves is an empty array, whichever of
  the three optional slots holds it (slot \<open>i\<close>, with no array in a later slot), the call
  throws and the store is as before; with a valid path the error is the assertion on the
  ACL list.
\<close>

theorem create_rejects_empty_acls:
  assumes "i < 3" and "[a1, a2, a3] ! i = JArray []"
    and "\<forall>j. i < j \<and> j < 3 \<longrightarrow> \<not> isArray ([a1, a2, a3] ! j)"
  shows "(\<exists>e. create env h this path a1 a2 a3 = (Inl e, h)) \<and>
         (Path_validate env path \<longrightarrow>
            create env h this path a1 a2 a3 =
              (Inl (AssertionError ''acls must be a non-empty array.''), h))"
proof -
  have a2: "\<not> isArray a2" if "i < 1"
    using assms(3)[rule_format, of 1] that by simp
  have a3: "\<not> isArray a3" if "i < 2"
    using assms(3)[rule_format, of 2] that by simp
  from assms(1) have "i = 0 \<or> i = 1 \<or> i = 2" by arith
  then have "last_of_shape isArray [a1, a2, a3] = Some (JArray [])"
  proof (elim disjE)
    assume "i = 0"
    with assms(2) a2 a3 show ?thesis by (simp add: last_of_shape_def)
  next
    assume "i = 1"
    with assms(2) a3 show ?thesis by (simp add: last_of_shape_def)
  next
    assume "i = 2"
    with assms(2) show ?thesis by (simp add: last_of_shape_def)
  qed
  then have "spec_acls env [a1, a2, a3] = []"
    by (simp add: spec_acls_def)
  then show ?thesis
    by (simp add: create_unfold)
qed

theorem create_rejects_empty_acls_witness:
  "(0::nat) < 3 \<and> [JArray [], JBuffer [120], JUndefined] ! 0 = JArray [] \<and>
   \<not> isArray (JBuffer [120]) \<and> \<not> isArray JUndefined \<and>
   Path_validate demo_env (JString ''/a'') \<and>
   create demo_env h0 0 (JString ''/a'') (JArray []) (JBuffer [120]) JUndefined =
     (Inl (AssertionError ''acls must be a non-empty array.''), h0)"
proof -
  have later: "\<forall>j. 0 < j \<and> j < 3 \<longrightarrow> \<not> isArray ([JArray [], JBuffer [120], JUndefined] ! j)"
  proof (intro allI impI)
    fix j :: nat
    assume "0 < j \<and> j < 3"
    then have "j = 1 \<or> j = 2" by arith
    then show "\<not> isArray ([JArray [], JBuffer [120], JUndefined] ! j)" by auto
  qed
  show ?thesis
    using create_rejects_empty_acls[of 0 "JArray []" "JBuffer [120]" JUndefined
            demo_env h0 0 "JString ''/a''", OF _ _ later]
    by simp
qed

section \<open>The version argument\<close>

text \<open>
  \<^verbatim>\<open>version || -1\<close> replaces every falsy value: an omitted version, and also \<^verbatim>\<open>0\<close>
  and \<^verbatim>\<open>NaN\<close>. A non-zero integer is stored as it is.
\<close>

lemma version_omitted:
  assumes "Path_validate env path"
  shows "check env h this path JUndefined = push h this (Check path (JNumber (- 1)))"
    and "setData env h this path (JBuffer bs) JUndefined =
           push h this (SetData path (JBuffer bs) (JNumber (- 1)))"
    and "remove env h this path JUndefined = push h this (Delete path (JNumber (- 1)))"
  using assms by (simp_all add: check_def setData_def remove_def js_or_def)

lemma version_nonzero:
  assumes "Path_validate env path" and "n \<noteq> 0"
  shows "check env h this path (JNumber n) = push h this (Check path (JNumber n))"
    and "setData env h this path (JBuffer bs) (JNumber n) =
           push h this (SetData path (JBuffer bs) (JNumber n))"
    and "remove env h this path (JNumber n) = push h this (Delete path (JNumber n))"
  using assms by (simp_all add: check_def setData_def remove_def js_or_def)

text \<open>
  Claim C3. \<^verbatim>\<open>check\<close>, \<^verbatim>\<open>setData\<close> and \<^verbatim>\<open>remove\<close> store \<open>-1\<close> when the version is
  omitted and are to store any supplied integer as it is, zero included. Supplied with
  version \<open>0\<close>, each of the three stores \<open>-1\<close>.
\<close>

theorem version_zero_stored_as_minus_one:
  "check demo_env h0 0 (JString ''/a'') (JNumber 0) =
     (Inr 0, h0(0 := \<lparr>ops = [Check (JString ''/a'') (JNumber (- 1))],
                       connectionManager = 7\<rparr>)) \<and>
   setData demo_env h0 0 (JString ''/a'') (JBuffer [121]) (JNumber 0) =
     (Inr 0, h0(0 := \<lparr>ops = [SetData (JString ''/a'') (JBuffer [121]) (JNumber (- 1))],
                       connectionManager = 7\<rparr>)) \<and>
   remove demo_env h0 0 (JString ''/a'') (JNumber 0) =
     (Inr 0, h0(0 := \<lparr>ops = [Delete (JString ''/a'') (JNumber (- 1))],
                       connectionManager = 7\<rparr>))"
  by (simp add: check_def setData_def remove_def js_or_def push_def)

section \<open>The data argument\<close>

lemma setData_rejects_other_data:
  assumes "Path_validate env path"
    and "data \<noteq> JNull" and "data \<noteq> JUndefined" and "\<not> isBuffer data"
  shows "setData env h this path data version =
           (Inl (AssertionError ''data must be a valid buffer, null or undefined.''), h)"
  using assms by (simp add: setData_def)

text \<open>
  Claim C5. \<^verbatim>\<open>create\<close> and \<^verbatim>\<open>setData\<close> are to throw when the data argument is
  neither absent nor a buffer. \<^verbatim>\<open>create\<close>, given a string as data, throws nothing: it
  appends a Create operation whose data is undefined.
\<close>

theorem create_accepts_string_data:
  "create demo_env h0 0 (JString ''/a'') (JString ''x'') JUndefined JUndefined =
     (Inr 0, h0(0 := \<lparr>ops = [Create (JString ''/a'') JUndefined [JObject 0] (JNumber 0)],
                       connectionManager = 7\<rparr>))"
  by (simp add: create_def push_def)

section \<open>Appending\<close>

text \<open>
  Claim C8. When a builder call throws, whatever the reason (the path, the data, the
  ACL list, the version), the store after the call is the store before it: nothing was
  pushed.
\<close>

theorem rejected_append_changes_nothing:
  assumes "fst (invoke env h this c) = Inl e"
  shows "snd (invoke env h this c) = h"
proof (cases c)
  case (CallCreate path a1 a2 a3)
  with assms show ?thesis
    by (simp add: create_unfold push_def split: if_splits)
next
  case (CallCheck path version)
  with assms show ?thesis
    by (simp add: check_def push_def Let_def split: if_splits)
next
  case (CallSetData path data version)
  with assms show ?thesis
    by (simp add: setData_def push_def Let_def split: if_splits)
next
  case (CallRemove path version)
  with assms show ?thesis
    by (simp add: remove_def push_def Let_def split: if_splits)
qed

theorem rejected_append_changes_nothing_witness:
  "fst (invoke demo_env (h0(0 := \<lparr>ops = demo_ops, connectionManager = 7\<rparr>)) 0
          (CallCheck (JNumber 42) JUndefined)) = Inl InvalidPath \<and>
   snd (invoke demo_env (h0(0 := \<lparr>ops = demo_ops, connectionManager = 7\<rparr>)) 0
          (CallCheck (JNumber 42) JUndefined)) =
     h0(0 := \<lparr>ops = demo_ops, connectionManager = 7\<rparr>) \<and>
   fst (invoke demo_env h0 0 (CallCreate (JString '''') JUndefined JUndefined JUndefined)) =
     Inl InvalidPath \<and>
   snd (invoke demo_env h0 0 (CallCreate (JString '''') JUndefined JUndefined JUndefined)) = h0"
proof -
  have 1: "fst (invoke demo_env (h0(0 := \<lparr>ops = demo_ops, connectionManager = 7\<rparr>)) 0
                  (CallCheck (JNumber 42) JUndefined)) = Inl InvalidPath"
    by (simp add: check_def)
  have 2: "fst (invoke demo_env h0 0 (CallCreate (JString '''') JUndefined JUndefined JUndefined)) =
             Inl InvalidPath"
    by (simp add: create_def)
  from 1 2 rejected_append_changes_nothing[OF 1] rejected_append_changes_nothing[OF 2]
  show ?thesis by simp
qed

lemma invoke_is_push:
  assumes "invoke env h this c = (Inr r, h')"
  shows "\<exists>op. \<forall>g. invoke env g this c = push g this op"
proof (cases c)
  case (CallCreate path a1 a2 a3)
  with assms show ?thesis
    by (auto simp: create_unfold split: if_splits)
next
  case (CallCheck path version)
  with assms show ?thesis
    by (auto simp: check_def Let_def split: if_splits)
next
  case (CallSetData path data version)
  with assms show ?thesis
    by (auto simp: setData_def Let_def split: if_splits)
next
  case (CallRemove path version)
  with assms show ?thesis
    by (auto simp: remove_def Let_def split: if_splits)
qed

lemma invoke_all_appends:
  "invoke_all env h this cs = (Inr r, h') \<Longrightarrow>
     \<exists>new. list_all2 (\<lambda>c op. \<forall>g. invoke env g this c = push g this op) cs new \<and>
       r = this \<and> h' = h(this := (h this)\<lparr>ops := ops (h this) @ new\<rparr>)"
proof (induction cs arbitrary: h)
  case Nil
  then show ?case by auto
next
  case (Cons c cs)
  from Cons.prems obtain r1 h1 where
    1: "invoke env h this c = (Inr r1, h1)" and 2: "invoke_all env h1 r1 cs = (Inr r, h')"
    by (auto split: prod.splits sum.splits)
  from invoke_is_push[OF 1] obtain op where
    op: "\<forall>g. invoke env g this c = push g this op"
    by blast
  with 1 have "(Inr r1, h1) = push h this op"
    by simp
  then have r1: "r1 = this"
    and h1: "h1 = h(this := (h this)\<lparr>ops := ops (h this) @ [op]\<rparr>)"
    by (simp_all add: push_def)
  from 2 r1 have "invoke_all env h1 this cs = (Inr r, h')"
    by simp
  from Cons.IH[OF this] obtain new where
    new: "list_all2 (\<lambda>c op. \<forall>g. invoke env g this c = push g this op) cs new" and
    3: "r = this" and
    4: "h' = h1(this := (h1 this)\<lparr>ops := ops (h1 this) @ new\<rparr>)"
    by blast
  from 4 h1 have "h' = h(this := (h this)\<lparr>ops := ops (h this) @ (op # new)\<rparr>)"
    by simp
  with op new 3 have
    "list_all2 (\<lambda>c op. \<forall>g. invoke env g this c = push g this op) (c # cs) (op # new) \<and>
       r = this \<and> h' = h(this := (h this)\<lparr>ops := ops (h this) @ (op # new)\<rparr>)"
    by simp
  then show ?case by blast
qed

text \<open>
  Claim C9. A chain of builder calls that all succeed returns the receiver itself, and
  leaves it with one new operation per call, after the operations it had, in the order
  of the calls: the \<open>k\<close>-th new operation is the one the \<open>k\<close>-th call pushes in any
  store. Nothing else in the store changes. A commit that follows hands the receiver's
  connection manager one request, of type MULTI, whose payload is that sequence of
  operations, and runs the completion function on each answer to that very request.
\<close>

theorem appends_in_order:
  assumes "invoke_all env h this cs = (Inr r, h')" and "is_function callback"
  shows "\<exists>new. list_all2 (\<lambda>c op. \<forall>g. invoke env g this c = push g this op) cs new \<and>
           r = this \<and>
           h' = h(this := (h this)\<lparr>ops := ops (h this) @ new\<rparr>) \<and>
           commit env h' this callback =
             (Inr (\<lparr>header_type = OP_CODES_MULTI env, payload = ops (h this) @ new\<rparr>,
                   map (\<lambda>(error, response). on_response env error response)
                     (queue env (connectionManager (h this))
                        \<lparr>header_type = OP_CODES_MULTI env, payload = ops (h this) @ new\<rparr>)),
              h')"
proof -
  from invoke_all_appends[OF assms(1)] obtain new where
    new: "list_all2 (\<lambda>c op. \<forall>g. invoke env g this c = push g this op) cs new" and
    r: "r = this" and
    h': "h' = h(this := (h this)\<lparr>ops := ops (h this) @ new\<rparr>)"
    by blast
  from h' have o: "ops (h' this) = ops (h this) @ new"
    and cm: "connectionManager (h' this) = connectionManager (h this)"
    by simp_all
  from assms(2) have "commit env h' this callback =
      (Inr (\<lparr>header_type = OP_CODES_MULTI env, payload = ops (h this) @ new\<rparr>,
            map (\<lambda>(error, response). on_response env error response)
              (queue env (connectionManager (h this))
                 \<lparr>header_type = OP_CODES_MULTI env, payload = ops (h this) @ new\<rparr>)),
       h')"
    unfolding commit_def Let_def o cm by simp
  with new r h' show ?thesis by blast
qed

text \<open>
  The chain \<open>demo_calls\<close> on a fresh transaction, then a commit against a connection
  manager that answers the request \<open>(14, demo_ops)\<close>, and no other, with
  \<open>demo_success\<close>.
\<close>

theorem appends_in_order_witness:
  "invoke_all (demo_answering \<lparr>header_type = 14, payload = demo_ops\<rparr>) h0 0 demo_calls =
     (Inr 0, h0(0 := \<lparr>ops = demo_ops, connectionManager = 7\<rparr>)) \<and>
   is_function (JFunction 1) \<and>
   commit (demo_answering \<lparr>header_type = 14, payload = demo_ops\<rparr>)
       (h0(0 := \<lparr>ops = demo_ops, connectionManager = 7\<rparr>)) 0 (JFunction 1) =
     (Inr (\<lparr>header_type = 14, payload = demo_ops\<rparr>, [Inr (Call2 JNull demo_success)]),
      h0(0 := \<lparr>ops = demo_ops, connectionManager = 7\<rparr>))"
proof -
  let ?env = "demo_answering \<lparr>header_type = 14, payload = demo_ops\<rparr>"
  let ?h = "h0(0 := \<lparr>ops = demo_ops, connectionManager = 7\<rparr>)"
  have run: "invoke_all ?env h0 0 demo_calls = (Inr 0, ?h)"
    by (simp add: demo_calls_def demo_ops_def create_def setData_def check_def js_or_def
          push_def)
  from appends_in_order[OF run, of "JFunction 1"] obtain new where
    h: "?h = h0(0 := (h0 0)\<lparr>ops := ops (h0 0) @ new\<rparr>)" and
    c: "commit ?env ?h 0 (JFunction 1) =
          (Inr (\<lparr>header_type = OP_CODES_MULTI ?env, payload = ops (h0 0) @ new\<rparr>,
                map (\<lambda>(error, response). on_response ?env error response)
                  (queue ?env (connectionManager (h0 0))
                     \<lparr>header_type = OP_CODES_MULTI ?env, payload = ops (h0 0) @ new\<rparr>)),
           ?h)"
    by auto
  from h have "?h 0 = (h0(0 := (h0 0)\<lparr>ops := ops (h0 0) @ new\<rparr>)) 0"
    by simp
  then have new: "new = demo_ops"
    by simp
  have "scan ?env JNull demo_success = JNull"
    by (simp add: demo_success_def)
  with c new run show ?thesis
    by (simp add: on_response_def)
qed

section \<open>Properties of commit\<close>

lemma scan_first_failure:
  "i < length rs \<Longrightarrow> signals_failure env (rs ! i) \<Longrightarrow>
   \<forall>j<i. \<not> signals_failure env (rs ! j) \<Longrightarrow>
   scan env error rs = Exception_create env (err (rs ! i))"
proof (induction rs arbitrary: i)
  case Nil
  then show ?case by simp
next
  case (Cons r rs)
  show ?case
  proof (cases i)
    case 0
    with Cons.prems show ?thesis by (simp add: signals_failure_def)
  next
    case (Suc k)
    from Cons.prems Suc have r: "\<not> signals_failure env r" by auto
    from Cons.prems Suc have "\<forall>j<k. \<not> signals_failure env (rs ! j)" by auto
    with Cons.prems Suc have "scan env error rs = Exception_create env (err (rs ! k))"
      by (intro Cons.IH) auto
    moreover from r have "scan env error (r # rs) = scan env error rs"
      by (auto simp: signals_failure_def)
    ultimately show ?thesis using Suc by simp
  qed
qed

lemma scan_no_failure:
  "\<forall>r\<in>set rs. \<not> signals_failure env r \<Longrightarrow> scan env error rs = error"
  by (induction rs) (auto simp: signals_failure_def)

text \<open>
  Claim C1. The connection manager completes the request once, with a falsy error and a
  response. If entry \<open>i\<close> of the results marks a failure and no entry before it does,
  the callback is called once, with the value the exception factory makes from the code
  of entry \<open>i\<close> and with the whole result array.
\<close>

theorem commit_reports_first_failure:
  assumes "is_function callback"
    and "queue env (connectionManager (h this))
           \<lparr>header_type = OP_CODES_MULTI env, payload = ops (h this)\<rparr> = [(error, Some resp)]"
    and "\<not> truthy error"
    and "i < length (results resp)"
    and "signals_failure env (results resp ! i)"
    and "\<forall>j<i. \<not> signals_failure env (results resp ! j)"
  shows "commit env h this callback =
           (Inr (\<lparr>header_type = OP_CODES_MULTI env, payload = ops (h this)\<rparr>,
                 [Inr (Call2 (Exception_create env (err (results resp ! i))) (results resp))]),
            h)"
  using assms scan_first_failure[of i "results resp" env error]
  by (simp add: commit_def on_response_def)

theorem commit_reports_first_failure_witness:
  "is_function (JFunction 1) \<and> \<not> truthy JNull \<and>
   (1::nat) < length demo_failure \<and>
   signals_failure (demo_replying [(JNull, Some \<lparr>results = demo_failure\<rparr>)]) (demo_failure ! 1) \<and>
   \<not> signals_failure (demo_replying [(JNull, Some \<lparr>results = demo_failure\<rparr>)]) (demo_failure ! 0) \<and>
   commit (demo_replying [(JNull, Some \<lparr>results = demo_failure\<rparr>)])
       (h0(0 := \<lparr>ops = demo_ops, connectionManager = 7\<rparr>)) 0 (JFunction 1) =
     (Inr (\<lparr>header_type = 14, payload = demo_ops\<rparr>, [Inr (Call2 (JObject 101) demo_failure)]),
      h0(0 := \<lparr>ops = demo_ops, connectionManager = 7\<rparr>))"
  using commit_reports_first_failure[of "JFunction 1"
          "demo_replying [(JNull, Some \<lparr>results = demo_failure\<rparr>)]"
          "h0(0 := \<lparr>ops = demo_ops, connectionManager = 7\<rparr>)" 0 JNull
          "\<lparr>results = demo_failure\<rparr>" 1]
  by (simp add: signals_failure_def demo_failure_def)

text \<open>
  Claim C2. The connection manager completes the request once, with a falsy error and a
  response none of whose results marks a failure. The callback is called once, with
  that falsy error value and with the result array as the connection manager gave it,
  for the request whose payload is the operations in the order they were appended.
\<close>

theorem commit_reports_success:
  assumes "is_function callback"
    and "queue env (connectionManager (h this))
           \<lparr>header_type = OP_CODES_MULTI env, payload = ops (h this)\<rparr> = [(error, Some resp)]"
    and "\<not> truthy error"
    and "\<forall>r\<in>set (results resp). \<not> signals_failure env r"
  shows "commit env h this callback =
           (Inr (\<lparr>header_type = OP_CODES_MULTI env, payload = ops (h this)\<rparr>,
                 [Inr (Call2 error (results resp))]),
            h)"
  using assms scan_no_failure[of "results resp" env error]
  by (simp add: commit_def on_response_def)

theorem commit_reports_success_witness:
  "is_function (JFunction 1) \<and> \<not> truthy JNull \<and>
   list_all (\<lambda>r. \<not> signals_failure (demo_replying [(JNull, Some \<lparr>results = demo_success\<rparr>)]) r)
     demo_success \<and>
   length demo_success = length demo_ops \<and>
   commit (demo_replying [(JNull, Some \<lparr>results = demo_success\<rparr>)])
       (h0(0 := \<lparr>ops = demo_ops, connectionManager = 7\<rparr>)) 0 (JFunction 1) =
     (Inr (\<lparr>header_type = 14, payload = demo_ops\<rparr>, [Inr (Call2 JNull demo_success)]),
      h0(0 := \<lparr>ops = demo_ops, connectionManager = 7\<rparr>))"
  using commit_reports_success[of "JFunction 1"
          "demo_replying [(JNull, Some \<lparr>results = demo_success\<rparr>)]"
          "h0(0 := \<lparr>ops = demo_ops, connectionManager = 7\<rparr>)" 0 JNull
          "\<lparr>results = demo_success\<rparr>"]
  by (simp add: signals_failure_def demo_success_def demo_ops_def)

text \<open>
  Claim C6. The connection manager completes the request once with a truthy error.
  The callback is called once with that very error and with no second argument,
  whatever the response is: the results are not read.
\<close>

theorem commit_passes_dispatch_error:
  assumes "is_function callback"
    and "queue env (connectionManager (h this))
           \<lparr>header_type = OP_CODES_MULTI env, payload = ops (h this)\<rparr> = [(error, response)]"
    and "truthy error"
  shows "commit env h this callback =
           (Inr (\<lparr>header_type = OP_CODES_MULTI env, payload = ops (h this)\<rparr>,
                 [Inr (Call1 error)]),
            h)"
  using assms by (simp add: commit_def on_response_def)

theorem commit_passes_dispatch_error_witness:
  "is_function (JFunction 1) \<and> truthy (JObject 5) \<and>
   commit (demo_replying [(JObject 5, None)])
       (h0(0 := \<lparr>ops = demo_ops, connectionManager = 7\<rparr>)) 0 (JFunction 1) =
     (Inr (\<lparr>header_type = 14, payload = demo_ops\<rparr>, [Inr (Call1 (JObject 5))]),
      h0(0 := \<lparr>ops = demo_ops, connectionManager = 7\<rparr>)) \<and>
   commit (demo_replying [(JObject 5, Some \<lparr>results = demo_failure\<rparr>)])
       (h0(0 := \<lparr>ops = demo_ops, connectionManager = 7\<rparr>)) 0 (JFunction 1) =
     (Inr (\<lparr>header_type = 14, payload = demo_ops\<rparr>, [Inr (Call1 (JObject 5))]),
      h0(0 := \<lparr>ops = demo_ops, connectionManager = 7\<rparr>))"
  using commit_passes_dispatch_error[of "JFunction 1" "demo_replying [(JObject 5, None)]"
          "h0(0 := \<lparr>ops = demo_ops, connectionManager = 7\<rparr>)" 0 "JObject 5" None]
        commit_passes_dispatch_error[of "JFunction 1"
          "demo_replying [(JObject 5, Some \<lparr>results = demo_failure\<rparr>)]"
          "h0(0 := \<lparr>ops = demo_ops, connectionManager = 7\<rparr>)" 0 "JObject 5"
          "Some \<lparr>results = demo_failure\<rparr>"]
  by simp

text \<open>
  Claim C10. \<^verbatim>\<open>commit\<close> leaves the store as it found it, whether it throws or returns
  and whatever the connection manager answers: the operations and the connection
  manager of the receiver are unchanged. No state is recorded, so every builder call
  does after a commit what it did before, and a second commit does what the first did.
\<close>

theorem commit_changes_nothing:
  "snd (commit env h this callback) = h \<and>
   invoke env (snd (commit env h this callback)) this c = invoke env h this c \<and>
   commit env (snd (commit env h this callback)) this callback' = commit env h this callback'"
  by (simp add: commit_def Let_def)

end
